theory Spec2Isabelle
  imports Complex_Main "HOL-Library.Char_ord" "HOL-Library.List_Lexorder" "HOL-Library.Product_Lexorder"
    "HOL-Library.Multiset" "HOL-Library.Log_Nat"
begin

section \<open>Road network dashboard (principal.py)\<close>

text \<open>
  The script reads two layers (roads and cantons), computes the area of every canton,
  lets the user choose one road category, intersects the roads of that category with the
  cantons, and aggregates road length per (canton, category) and per canton. Its outputs
  are a table, the data of a bar chart and of a pie chart, and the data of a map.

  The model follows the script line by line. Data frames are lists of records, in row
  order. Lengths and areas are real numbers: the values of the float64 numbers of the
  script, with the sums and quotients of the aggregation taken without rounding. The
  geodesic engine (pyproj's Geod), the geometry engine (the intersection and the union of
  geopandas), Python's \<open>str.lower\<close> and the order in which quicksort leaves equal keys are
  not code of the script: they are parameters of the model, and every theorem holds for
  every value of them.
\<close>

subsection \<open>Errors\<close>

text \<open>
  What makes the script stop: \<open>read_file\<close> on a file that is missing or cannot be parsed,
  \<open>.loc\<close> on a column that the layer does not have, \<open>.lower()\<close> on the \<open>None\<close> that
  the selection control returns when it has no option, the division of line 101 when the
  intersection has no rows, and the bins of the map of line 180 when a density is infinite.
\<close>

datatype error = DriverError | KeyError | AttributeError | TypeError | ValueError

subsection \<open>Engines\<close>

text \<open>
  \<open>geometry_area_perimeter\<close> returns the signed area (square metres) and the perimeter of a
  polygon; \<open>geometry_length\<close> the length of a line in metres.
\<close>

record 'g Geod =
  geometry_area_perimeter :: "'g \<Rightarrow> real \<times> real"
  geometry_length :: "'g \<Rightarrow> real"

text \<open>
  \<open>intersection\<close> clips the first geometry by the second, \<open>None\<close> when nothing is left
  (\<open>overlay\<close> keeps the parts that are lines, as the roads are); \<open>unary_union\<close> merges
  the geometries of a group.
\<close>

record 'g geometry_ops =
  intersection :: "'g \<Rightarrow> 'g \<Rightarrow> 'g option"
  unary_union :: "'g list \<Rightarrow> 'g"

subsection \<open>Layers and rows\<close>

text \<open>
  A file is missing, or cannot be parsed, or holds a layer: its coordinate reference system,
  the names of its columns and its rows. The rows carry the attributes the script reads.
\<close>

record 'r layer =
  crs :: string
  columns :: "string list"
  rows :: "'r list"

datatype 'r archivo = Missing | Malformed | GeoJSON "'r layer"

record 'g via =
  v_categoria :: string
  v_codigo :: string
  v_geometry :: 'g

record 'g canton_row =
  c_id :: string
  c_canton :: string
  c_provincia :: string
  c_geometry :: 'g

text \<open>A canton after line 79: with its area in square kilometres.\<close>

record 'g canton_area = "'g canton_row" +
  c_area :: real

subsection \<open>Loading (lines 67 to 79)\<close>

definition read_file :: "'r archivo \<Rightarrow> error + 'r layer" where
  "read_file f = (case f of Missing \<Rightarrow> Inl DriverError | Malformed \<Rightarrow> Inl DriverError | GeoJSON l \<Rightarrow> Inr l)"

text \<open>\<open>df.loc[:, cols]\<close>: every requested column must exist; the others are dropped.\<close>

definition loc_columns :: "string list \<Rightarrow> 'r layer \<Rightarrow> error + 'r layer" where
  "loc_columns cols l = (if set cols \<subseteq> set (columns l) then Inr (l\<lparr>columns := cols\<rparr>) else Inl KeyError)"

definition cargar_vias :: "'g via archivo \<Rightarrow> error + 'g via layer" where
  "cargar_vias f = (case read_file f of Inl e \<Rightarrow> Inl e
     | Inr l \<Rightarrow> loc_columns [''categoria'', ''codigo'', ''geometry''] l)"

definition area_f :: "'g Geod \<Rightarrow> 'g \<Rightarrow> real" where
  "area_f geod x = \<bar>fst (geometry_area_perimeter geod x)\<bar>"

definition con_area :: "'g Geod \<Rightarrow> 'g canton_row \<Rightarrow> 'g canton_area" where
  "con_area geod c = \<lparr>c_id = c_id c, c_canton = c_canton c, c_provincia = c_provincia c,
     c_geometry = c_geometry c, c_area = area_f geod (c_geometry c) / 1000000\<rparr>"

definition cargar_cantones :: "'g Geod \<Rightarrow> 'g canton_row archivo \<Rightarrow> error + 'g canton_area list" where
  "cargar_cantones geod f = (case read_file f of Inl e \<Rightarrow> Inl e
     | Inr l \<Rightarrow> (case loc_columns [''id'', ''canton'', ''provincia'', ''geometry''] l of Inl e \<Rightarrow> Inl e
         | Inr l' \<Rightarrow> Inr (map (con_area geod) (rows l'))))"

subsection \<open>The selection control (lines 83 to 86)\<close>

text \<open>\<open>Series.unique\<close>: the distinct values, in order of first appearance.\<close>

fun unique :: "'a list \<Rightarrow> 'a list" where
  "unique [] = []"
| "unique (x # xs) = x # unique (filter (\<lambda>y. y \<noteq> x) xs)"

definition lista_categorias :: "'g via list \<Rightarrow> string list" where
  "lista_categorias vias = sort (unique (map v_categoria vias))"

text \<open>
  The control returns the option the user points at (the first one by default), and
  \<open>None\<close> when it has no option.
\<close>

definition selectbox :: "string list \<Rightarrow> nat \<Rightarrow> string option" where
  "selectbox opts i = (if opts = [] then None else if i < length opts then Some (opts ! i) else Some (opts ! 0))"

subsection \<open>Filter (line 94)\<close>

definition filtrar :: "string \<Rightarrow> 'g via list \<Rightarrow> 'g via list" where
  "filtrar filtro_categoria vias = filter (\<lambda>v. v_categoria v = filtro_categoria) vias"

subsection \<open>Intersection and length (lines 100 and 101)\<close>

text \<open>
  A row of \<open>cantones_vias\<close>: the attributes of the road, those of the canton, and the clipped
  geometry. Line 101 adds the column \<open>longitud\<close>: it applies the length function to the
  geometry column and divides the result by 1000. On a frame without rows the result of
  \<open>apply\<close> is still a geometry column, and the division raises a TypeError
  (\<open>linea_101\<close>); \<open>cantones_vias\<close> is the table that line 101 leaves otherwise.
\<close>

record 'g overlay_row =
  cv_categoria :: string
  cv_codigo :: string
  cv_id :: string
  cv_canton :: string
  cv_provincia :: string
  cv_area :: real
  cv_geometry :: 'g

record 'g cv_row = "'g overlay_row" +
  cv_longitud :: real

definition clip :: "'g geometry_ops \<Rightarrow> 'g via \<Rightarrow> 'g canton_area \<Rightarrow> 'g overlay_row list" where
  "clip ops v c = (case intersection ops (v_geometry v) (c_geometry c) of
       None \<Rightarrow> []
     | Some g \<Rightarrow> [\<lparr>cv_categoria = v_categoria v, cv_codigo = v_codigo v, cv_id = c_id c,
          cv_canton = c_canton c, cv_provincia = c_provincia c, cv_area = c_area c,
          cv_geometry = g\<rparr>])"

text \<open>
  \<open>overlay(how='intersection')\<close>: one row for every pair of a road and a canton whose
  intersection is not empty, the pairs ordered by road and then by canton.
\<close>

definition overlay :: "'g geometry_ops \<Rightarrow> 'g via list \<Rightarrow> 'g canton_area list \<Rightarrow> 'g overlay_row list" where
  "overlay ops vias cantones = concat (map (\<lambda>v. concat (map (clip ops v) cantones)) vias)"

definition con_longitud :: "'g Geod \<Rightarrow> 'g overlay_row \<Rightarrow> 'g cv_row" where
  "con_longitud geod r = \<lparr>cv_categoria = cv_categoria r, cv_codigo = cv_codigo r, cv_id = cv_id r,
     cv_canton = cv_canton r, cv_provincia = cv_provincia r, cv_area = cv_area r,
     cv_geometry = cv_geometry r, cv_longitud = geometry_length geod (cv_geometry r) / 1000\<rparr>"

definition linea_101 :: "'g Geod \<Rightarrow> 'g overlay_row list \<Rightarrow> error + 'g cv_row list" where
  "linea_101 geod ov = (if ov = [] then Inl TypeError else Inr (map (con_longitud geod) ov))"

definition cantones_vias :: "'g Geod \<Rightarrow> 'g geometry_ops \<Rightarrow> 'g via list \<Rightarrow> 'g canton_area list \<Rightarrow> 'g cv_row list" where
  "cantones_vias geod ops vias cantones = map (con_longitud geod) (overlay ops vias cantones)"

subsection \<open>Aggregation (lines 103 to 116)\<close>

text \<open>The keys of a group-by, sorted, and the rows of one group, in row order.\<close>

definition claves :: "('r \<Rightarrow> 'k::linorder) \<Rightarrow> 'r list \<Rightarrow> 'k list" where
  "claves key xs = sort (unique (map key xs))"

definition grupo :: "('r \<Rightarrow> 'k) \<Rightarrow> 'r list \<Rightarrow> 'k \<Rightarrow> 'r list" where
  "grupo key xs k = filter (\<lambda>r. key r = k) xs"

record categoria_row =
  cat_canton :: string
  cat_categoria :: string
  cat_area :: real
  cat_longitud :: real

fun agg_categoria :: "string \<times> string \<Rightarrow> 'g cv_row list \<Rightarrow> categoria_row list" where
  "agg_categoria k [] = []"
| "agg_categoria k (r # rs) = [\<lparr>cat_canton = fst k, cat_categoria = snd k, cat_area = cv_area r,
     cat_longitud = sum_list (map cv_longitud (r # rs))\<rparr>]"

definition por_categoria :: "'g cv_row list \<Rightarrow> categoria_row list" where
  "por_categoria cv = concat (map (\<lambda>k. agg_categoria k (grupo (\<lambda>r. (cv_canton r, cv_categoria r)) cv k))
     (claves (\<lambda>r. (cv_canton r, cv_categoria r)) cv))"

text \<open>A row of \<open>por_canton\<close>: the result of \<open>dissolve\<close>, and the density that line 116 adds.\<close>

record 'g dissolve_row =
  can_canton :: string
  can_geometry :: 'g
  can_id :: string
  can_area :: real
  can_longitud :: real

text \<open>
  The quotient of two columns is numpy's: a division by zero gives an infinity or
  not-a-number and no error.
\<close>

datatype float64 = Fin real | PInf | MInf | NaN

definition np_div :: "real \<Rightarrow> real \<Rightarrow> float64" where
  "np_div x y = (if y \<noteq> 0 then Fin (x / y) else if x = 0 then NaN else if 0 < x then PInf else MInf)"

record 'g canton_agg = "'g dissolve_row" +
  can_densidad :: float64

fun agg_canton :: "'g geometry_ops \<Rightarrow> string \<Rightarrow> 'g cv_row list \<Rightarrow> 'g dissolve_row list" where
  "agg_canton ops k [] = []"
| "agg_canton ops k (r # rs) = [\<lparr>can_canton = k, can_geometry = unary_union ops (map cv_geometry (r # rs)),
     can_id = cv_id r, can_area = cv_area r, can_longitud = sum_list (map cv_longitud (r # rs))\<rparr>]"

definition dissolve :: "'g geometry_ops \<Rightarrow> 'g cv_row list \<Rightarrow> 'g dissolve_row list" where
  "dissolve ops cv = concat (map (\<lambda>k. agg_canton ops k (grupo cv_canton cv k)) (claves cv_canton cv))"

definition con_densidad :: "'g dissolve_row \<Rightarrow> 'g canton_agg" where
  "con_densidad r = \<lparr>can_canton = can_canton r, can_geometry = can_geometry r, can_id = can_id r,
     can_area = can_area r, can_longitud = can_longitud r,
     can_densidad = np_div (can_longitud r) (can_area r)\<rparr>"

definition por_canton :: "'g geometry_ops \<Rightarrow> 'g cv_row list \<Rightarrow> 'g canton_agg list" where
  "por_canton ops cv = map con_densidad (dissolve ops cv)"

subsection \<open>Table (lines 126 and 127)\<close>

text \<open>
  \<open>pivot\<close>: one row for every canton and one column for every category of \<open>por_categoria\<close>,
  both sorted; a cell without a value is \<open>None\<close> (shown as two dashes). The inner join keeps
  the cantons that \<open>por_canton\<close> has as well, and adds their density.
\<close>

record tabla_row =
  t_canton :: string
  t_longitud :: "real option list"
  t_densidad :: float64

definition pivot_cell :: "categoria_row list \<Rightarrow> string \<Rightarrow> string \<Rightarrow> real option" where
  "pivot_cell pc k c = map_option cat_longitud (find (\<lambda>p. cat_canton p = k \<and> cat_categoria p = c) pc)"

definition pivot :: "categoria_row list \<Rightarrow> (string \<times> real option list) list" where
  "pivot pc = map (\<lambda>k. (k, map (pivot_cell pc k) (claves cat_categoria pc))) (claves cat_canton pc)"

definition tabla :: "categoria_row list \<Rightarrow> 'g canton_agg list \<Rightarrow> tabla_row list" where
  "tabla pc pn = concat (map (\<lambda>(k, cells). case find (\<lambda>r. can_canton r = k) pn of
        None \<Rightarrow> []
      | Some r \<Rightarrow> [\<lparr>t_canton = k, t_longitud = cells, t_densidad = can_densidad r\<rparr>]) (pivot pc))"

subsection \<open>Charts (lines 144 to 162)\<close>

text \<open>
  \<open>nlargest\<close>: the rows of the largest keys by decreasing key, rows of equal key in row
  order (\<open>keep='first'\<close>).
\<close>

definition sort_desc :: "('r \<Rightarrow> real) \<Rightarrow> 'r list \<Rightarrow> 'r list" where
  "sort_desc f xs = sort_key (\<lambda>r. - f r) xs"

definition nlargest :: "nat \<Rightarrow> ('r \<Rightarrow> real) \<Rightarrow> 'r list \<Rightarrow> 'r list" where
  "nlargest n f xs = take n (sort_desc f xs)"

text \<open>
  \<open>sort_values(ascending=False)\<close> sorts with quicksort: rows by decreasing key, rows of
  equal key in an order that pandas does not fix. That order is the parameter \<open>ties\<close>, a
  rearrangement of the rows made before a sort that keeps equal keys in place; every
  decreasing order of the rows is the result for some rearrangement.
\<close>

definition sort_values :: "('r list \<Rightarrow> 'r list) \<Rightarrow> ('r \<Rightarrow> real) \<Rightarrow> 'r list \<Rightarrow> 'r list" where
  "sort_values ties f xs = sort_key (\<lambda>r. - f r) (ties xs)"

definition top_15 :: "'g canton_agg list \<Rightarrow> (string \<times> real) list" where
  "top_15 pn = map (\<lambda>r. (can_canton r, can_longitud r)) (nlargest 15 can_longitud pn)"

record barra_row = categoria_row +
  longitud_canton :: real

definition top_15_por_categoria :: "categoria_row list \<Rightarrow> (string \<times> real) list \<Rightarrow> barra_row list" where
  "top_15_por_categoria pc tops = concat (map (\<lambda>p. case map_of tops (cat_canton p) of
        None \<Rightarrow> []
      | Some l \<Rightarrow> [\<lparr>cat_canton = cat_canton p, cat_categoria = cat_categoria p, cat_area = cat_area p,
           cat_longitud = cat_longitud p, longitud_canton = l\<rparr>]) pc)"

definition relabel :: "nat \<times> 'g canton_agg \<Rightarrow> 'g canton_agg" where
  "relabel ir = (if 15 \<le> fst ir then (snd ir)\<lparr>can_canton := ''Otros cantones''\<rparr> else snd ir)"

definition por_canton_pie :: "('g canton_agg list \<Rightarrow> 'g canton_agg list) \<Rightarrow> 'g canton_agg list \<Rightarrow> 'g canton_agg list" where
  "por_canton_pie ties pn = map relabel (enumerate 0 (sort_values ties can_longitud pn))"

subsection \<open>Map (line 180)\<close>

text \<open>
  The choropleth layer computes seven bins from the densities of \<open>por_canton\<close>, and that
  raises a ValueError when one of them is infinite.
\<close>

fun infinite_density :: "float64 \<Rightarrow> bool" where
  "infinite_density PInf = True"
| "infinite_density MInf = True"
| "infinite_density d = False"

definition choropleth :: "'g canton_agg list \<Rightarrow> error + 'g canton_agg list" where
  "choropleth pn = (if list_ex (\<lambda>r. infinite_density (can_densidad r)) pn then Inl ValueError else Inr pn)"

subsection \<open>The script\<close>

text \<open>
  What the script takes from Python and pandas and does not fix itself: \<open>str.lower\<close>, and
  the order of equal keys in the two calls of \<open>sort_values\<close> (lines 148 and 161).
\<close>

record 'g entorno =
  str_lower :: "string \<Rightarrow> string"
  ties_barras :: "barra_row list \<Rightarrow> barra_row list"
  ties_pastel :: "'g canton_agg list \<Rightarrow> 'g canton_agg list"

record 'g salidas =
  filtro_categoria_str :: string
  s_tabla :: "tabla_row list"
  s_barras :: "barra_row list"
  s_pastel :: "'g canton_agg list"
  s_mapa :: "'g canton_agg list"

text \<open>
  Lines 86 to 207 for a selected category. An error of line 101 or of line 180 is the
  result of the run.
\<close>

definition procesar :: "'g Geod \<Rightarrow> 'g geometry_ops \<Rightarrow> 'g entorno \<Rightarrow> 'g via list \<Rightarrow> 'g canton_area list \<Rightarrow> string \<Rightarrow> error + 'g salidas" where
  "procesar geod ops env vias cantones filtro_categoria =
     (case linea_101 geod (overlay ops (filtrar filtro_categoria vias) cantones) of
        Inl e \<Rightarrow> Inl e
      | Inr cv \<Rightarrow>
          (let pc = por_categoria cv;
               pn = por_canton ops cv
           in (case choropleth pn of
                 Inl e \<Rightarrow> Inl e
               | Inr mapa \<Rightarrow> Inr \<lparr>filtro_categoria_str = str_lower env filtro_categoria,
                   s_tabla = tabla pc pn,
                   s_barras = sort_values (ties_barras env) longitud_canton (top_15_por_categoria pc (top_15 pn)),
                   s_pastel = por_canton_pie (ties_pastel env) pn,
                   s_mapa = mapa\<rparr>)))"

definition principal :: "'g Geod \<Rightarrow> 'g geometry_ops \<Rightarrow> 'g entorno \<Rightarrow> 'g via archivo \<Rightarrow> 'g canton_row archivo \<Rightarrow> nat \<Rightarrow> error + 'g salidas" where
  "principal geod ops env f_vias f_cantones i =
     (case cargar_vias f_vias of Inl e \<Rightarrow> Inl e | Inr vias \<Rightarrow>
        (case cargar_cantones geod f_cantones of Inl e \<Rightarrow> Inl e | Inr cantones \<Rightarrow>
           (case selectbox (lista_categorias (rows vias)) i of
              None \<Rightarrow> Inl AttributeError
            | Some filtro_categoria \<Rightarrow> procesar geod ops env (rows vias) cantones filtro_categoria)))"

subsection \<open>Sums in float64\<close>

text \<open>
  A float64 number is written as a mantissa and a binary exponent. The sum of two of them
  is their exact sum rounded to 53 significant bits, to the nearest and on a tie to the
  even mantissa (overflow aside); the sum of a column adds its entries from left to right.
\<close>

type_synonym double = "int \<times> int"

definition valor :: "double \<Rightarrow> real" where
  "valor d = (if 0 \<le> snd d then real_of_int (fst d) * 2 ^ nat (snd d)
     else real_of_int (fst d) / 2 ^ nat (- snd d))"

definition round53 :: "double \<Rightarrow> double" where
  "round53 d = (let m = fst d; e = snd d; k = bitlen \<bar>m\<bar> - 53 in
     if k \<le> 0 then d
     else (let q = m div 2 ^ nat k; r = m mod 2 ^ nat k; h = 2 ^ nat (k - 1)
           in (if h < r \<or> (r = h \<and> odd q) then q + 1 else q, e + k)))"

definition fadd :: "double \<Rightarrow> double \<Rightarrow> double" where
  "fadd a b = (let e = min (snd a) (snd b)
     in round53 (fst a * 2 ^ nat (snd a - e) + fst b * 2 ^ nat (snd b - e), e))"

definition fsub :: "double \<Rightarrow> double \<Rightarrow> double" where
  "fsub a b = fadd a (- fst b, snd b)"

definition sum64 :: "double list \<Rightarrow> double" where
  "sum64 ds = foldl fadd (0, 0) ds"

subsection \<open>Sample engines and layers\<close>

text \<open>
  Two engines on which the script can be evaluated. On the grid, a geometry is the list of
  the unit cells it covers: a road has one kilometre in every cell, a canton one square
  kilometre. In the plane, a polygon is the list of its vertices (in metres, the first
  repeated at the end) and its signed area is the surveyor's formula.
\<close>

definition grid_geod :: "nat list Geod" where
  "grid_geod = \<lparr>geometry_area_perimeter = (\<lambda>g. (1000000 * real (length g), 0)),
     geometry_length = (\<lambda>g. 1000 * real (length g))\<rparr>"

definition grid_intersection :: "nat list \<Rightarrow> nat list \<Rightarrow> nat list option" where
  "grid_intersection a b = (if filter (\<lambda>x. x \<in> set b) a = [] then None else Some (filter (\<lambda>x. x \<in> set b) a))"

definition grid_ops :: "nat list geometry_ops" where
  "grid_ops = \<lparr>intersection = grid_intersection, unary_union = concat\<rparr>"

fun shoelace :: "(int \<times> int) list \<Rightarrow> int" where
  "shoelace (p # q # ps) = fst p * snd q - fst q * snd p + shoelace (q # ps)"
| "shoelace ps = 0"

definition planar_geod :: "(int \<times> int) list Geod" where
  "planar_geod = \<lparr>geometry_area_perimeter = (\<lambda>ps. (real_of_int (shoelace ps) / 2, 0)),
     geometry_length = (\<lambda>ps. 0)\<rparr>"

text \<open>Lower-casing of the letters A to Z, and an environment that leaves equal keys in row order.\<close>

definition ascii_lower_char :: "char \<Rightarrow> char" where
  "ascii_lower_char c = (if 65 \<le> (of_char c :: nat) \<and> (of_char c :: nat) \<le> 90 then char_of (of_char c + 32 :: nat) else c)"

definition ascii_lower :: "string \<Rightarrow> string" where
  "ascii_lower s = map ascii_lower_char s"

definition sample_env :: "nat list entorno" where
  "sample_env = \<lparr>str_lower = ascii_lower, ties_barras = id, ties_pastel = id\<rparr>"

definition sample_via :: "string \<Rightarrow> string \<Rightarrow> 'g \<Rightarrow> 'g via" where
  "sample_via cat cod g = \<lparr>v_categoria = cat, v_codigo = cod, v_geometry = g\<rparr>"

definition sample_canton :: "string \<Rightarrow> string \<Rightarrow> 'g \<Rightarrow> 'g canton_row" where
  "sample_canton i name g = \<lparr>c_id = i, c_canton = name, c_provincia = ''P'', c_geometry = g\<rparr>"

definition sample_layer :: "string list \<Rightarrow> 'r list \<Rightarrow> 'r layer" where
  "sample_layer cols rs = \<lparr>crs = ''EPSG:4326'', columns = cols, rows = rs\<rparr>"


text \<open>
  A road layer of five roads over four categories, and a canton layer of four cantons.
  Road 1 crosses the cantons A, B and C; road 4 runs in A and outside every canton; the
  footpath (road 5) lies outside every canton; no road enters canton D.
\<close>

definition sample_vias :: "nat list via list" where
  "sample_vias = [sample_via ''RUTA'' ''1'' [1, 2, 3, 4, 5, 6], sample_via ''AUTOPISTA'' ''2'' [3, 4],
     sample_via ''ruta'' ''3'' [7], sample_via ''RUTA'' ''4'' [1, 20], sample_via ''SENDERO'' ''5'' [40, 41]]"

definition sample_cantones_rows :: "nat list canton_row list" where
  "sample_cantones_rows = [sample_canton ''101'' ''A'' [1, 2, 3], sample_canton ''102'' ''B'' [4, 5, 10, 11],
     sample_canton ''103'' ''C'' [6, 12], sample_canton ''104'' ''D'' [30, 31]]"

definition sample_cantones :: "nat list canton_area list" where
  "sample_cantones = map (con_area grid_geod) sample_cantones_rows"

definition sample_cv :: "nat list cv_row list" where
  "sample_cv = cantones_vias grid_geod grid_ops (filtrar ''RUTA'' sample_vias) sample_cantones"

text \<open>The intersection rows of all the sample roads, without the filter.\<close>

definition sample_cv_all :: "nat list cv_row list" where
  "sample_cv_all = cantones_vias grid_geod grid_ops sample_vias sample_cantones"

text \<open>A canton layer in which two features carry the same canton name.\<close>

definition twin_cantones :: "nat list canton_area list" where
  "twin_cantones = map (con_area grid_geod) [sample_canton ''101'' ''A'' [1, 2, 3], sample_canton ''105'' ''A'' [4, 5]]"

definition twin_cv :: "nat list cv_row list" where
  "twin_cv = cantones_vias grid_geod grid_ops (filtrar ''RUTA'' sample_vias) twin_cantones"

text \<open>Seventeen rows of \<open>por_canton\<close>, for the charts.\<close>

definition sample_agg :: "string \<Rightarrow> real \<Rightarrow> nat list canton_agg" where
  "sample_agg name len = \<lparr>can_canton = name, can_geometry = [], can_id = name, can_area = 1,
     can_longitud = len, can_densidad = Fin len\<rparr>"

definition sample_por_canton :: "nat list canton_agg list" where
  "sample_por_canton = [sample_agg ''c01'' 3, sample_agg ''c02'' 17, sample_agg ''c03'' 1, sample_agg ''c04'' 9,
     sample_agg ''c05'' 12, sample_agg ''c06'' 5, sample_agg ''c07'' 14, sample_agg ''c08'' 2, sample_agg ''c09'' 8,
     sample_agg ''c10'' 16, sample_agg ''c11'' 4, sample_agg ''c12'' 11, sample_agg ''c13'' 7, sample_agg ''c14'' 15,
     sample_agg ''c15'' 6, sample_agg ''c16'' 13, sample_agg ''c17'' 10]"

text \<open>
  Sixteen rows of \<open>por_canton\<close>: fifteen cantons with 16 to 30 kilometres of road and one
  with a sliver of \<open>2 ^ -50\<close> kilometres; their lengths as float64 numbers, in row order,
  and the lengths of the fifteen largest in decreasing order.
\<close>

definition sliver_por_canton :: "nat list canton_agg list" where
  "sliver_por_canton = [sample_agg ''k01'' 21, sample_agg ''k02'' 16, sample_agg ''k03'' 30, sample_agg ''k04'' 25,
     sample_agg ''k05'' 18, sample_agg ''k06'' 27, sample_agg ''k07'' 23, sample_agg ''k08'' (1 / 2 ^ 50),
     sample_agg ''k09'' 20, sample_agg ''k10'' 29, sample_agg ''k11'' 17, sample_agg ''k12'' 24,
     sample_agg ''k13'' 28, sample_agg ''k14'' 19, sample_agg ''k15'' 26, sample_agg ''k16'' 22]"

definition sliver_lengths :: "double list" where
  "sliver_lengths = [(21, 0), (16, 0), (30, 0), (25, 0), (18, 0), (27, 0), (23, 0), (1, - 50),
     (20, 0), (29, 0), (17, 0), (24, 0), (28, 0), (19, 0), (26, 0), (22, 0)]"

definition sliver_top_15 :: "double list" where
  "sliver_top_15 = [(30, 0), (29, 0), (28, 0), (27, 0), (26, 0), (25, 0), (24, 0), (23, 0),
     (22, 0), (21, 0), (20, 0), (19, 0), (18, 0), (17, 0), (16, 0)]"

text \<open>A square of one kilometre, and a polygon whose vertices are all the same point.\<close>

definition square :: "(int \<times> int) list" where
  "square = [(0, 0), (1000, 0), (1000, 1000), (0, 1000), (0, 0)]"

definition point_polygon :: "(int \<times> int) list" where
  "point_polygon = [(0, 0), (0, 0), (0, 0), (0, 0)]"

text \<open>The columns the script asks for, and a road layer in another reference system.\<close>

definition cols_vias :: "string list" where
  "cols_vias = [''categoria'', ''codigo'', ''geometry'']"

definition cols_cantones :: "string list" where
  "cols_cantones = [''id'', ''canton'', ''provincia'', ''geometry'']"

definition crtm05_vias :: "nat list via layer" where
  "crtm05_vias = \<lparr>crs = ''EPSG:5367'', columns = cols_vias, rows = sample_vias\<rparr>"


section \<open>Properties\<close>

lemma unique_set: "set (unique xs) = set xs"
  by (induction xs rule: unique.induct) auto

lemma unique_distinct: "distinct (unique xs)"
  by (induction xs rule: unique.induct) (auto simp: unique_set)

lemma selectbox_member: "selectbox opts i = Some c \<Longrightarrow> c \<in> set opts"
  by (auto simp: selectbox_def split: if_splits)

lemmas sample_defs = sample_vias_def sample_cantones_rows_def sample_cantones_def sample_via_def
  sample_canton_def grid_geod_def grid_ops_def grid_intersection_def con_area_def area_f_def

lemmas pipeline_defs = filtrar_def cantones_vias_def overlay_def clip_def con_longitud_def

subsection \<open>The selection control and the filter\<close>

text \<open>
  C10. The options of the selection control are exactly the category values that occur in
  the road layer, each once and sorted; filtering the roads by any of them, and so by
  whatever the control returns, leaves at least one road.
\<close>

theorem selectable_category_has_rows:
  "set (lista_categorias vias) = v_categoria ` set vias
   \<and> distinct (lista_categorias vias) \<and> sorted (lista_categorias vias)
   \<and> (\<forall>c \<in> set (lista_categorias vias). filtrar c vias \<noteq> [])
   \<and> (\<forall>i c. selectbox (lista_categorias vias) i = Some c \<longrightarrow> filtrar c vias \<noteq> [])"
proof -
  have s: "set (lista_categorias vias) = v_categoria ` set vias"
    by (simp add: lista_categorias_def unique_set)
  have d: "distinct (lista_categorias vias)"
    by (simp add: lista_categorias_def unique_distinct)
  have o: "sorted (lista_categorias vias)"
    by (simp add: lista_categorias_def)
  have f: "filtrar c vias \<noteq> []" if "c \<in> set (lista_categorias vias)" for c
  proof -
    from that s obtain v where "v \<in> set vias" "v_categoria v = c" by auto
    then have "v \<in> set (filtrar c vias)" by (simp add: filtrar_def)
    then show ?thesis by auto
  qed
  from f have g: "filtrar c vias \<noteq> []" if "selectbox (lista_categorias vias) i = Some c" for i c
    using that selectbox_member by metis
  show ?thesis using s d o f g by blast
qed

lemma sample_lista_categorias: "lista_categorias sample_vias = [''AUTOPISTA'', ''RUTA'', ''SENDERO'', ''ruta'']"
  by (simp add: lista_categorias_def sample_vias_def sample_via_def)

theorem selectable_category_has_rows_witness:
  "lista_categorias sample_vias = [''AUTOPISTA'', ''RUTA'', ''SENDERO'', ''ruta'']
   \<and> selectbox (lista_categorias sample_vias) 2 = Some ''SENDERO''
   \<and> filtrar ''SENDERO'' sample_vias = [sample_via ''SENDERO'' ''5'' [40, 41]]
   \<and> filtrar ''AUTOPISTA'' sample_vias \<noteq> [] \<and> filtrar ''RUTA'' sample_vias \<noteq> []
   \<and> filtrar ''ruta'' sample_vias \<noteq> []"
proof -
  have sel: "selectbox (lista_categorias sample_vias) 2 = Some ''SENDERO''"
    by (simp add: sample_lista_categorias selectbox_def)
  have rows: "filtrar ''SENDERO'' sample_vias = [sample_via ''SENDERO'' ''5'' [40, 41]]"
    by (simp add: filtrar_def sample_vias_def sample_via_def)
  from selectable_category_has_rows [of sample_vias]
  have "\<forall>c \<in> set (lista_categorias sample_vias). filtrar c sample_vias \<noteq> []" by blast
  then have "filtrar ''AUTOPISTA'' sample_vias \<noteq> [] \<and> filtrar ''RUTA'' sample_vias \<noteq> []
      \<and> filtrar ''ruta'' sample_vias \<noteq> []"
    by (simp add: sample_lista_categorias)
  with sel rows show ?thesis by (simp add: sample_lista_categorias)
qed

text \<open>
  C5. The filter keeps exactly the roads whose category is equal to the selection, byte
  for byte: a road whose category differs from the selection only in the case of its
  letters is dropped, whatever \<open>str.lower\<close> does. The lower-cased selection goes to the
  headings only; the aggregates are computed from the roads that the exact comparison
  keeps, and a run gives the same result on the road layer and on those roads alone.
\<close>

theorem filter_is_exact_match:
  "filtrar sel vias = filter (\<lambda>v. v_categoria v = sel) vias
   \<and> (\<forall>v \<in> set vias. (v \<in> set (filtrar sel vias)) = (v_categoria v = sel))
   \<and> (\<forall>v \<in> set vias. str_lower env (v_categoria v) = str_lower env sel \<and> v_categoria v \<noteq> sel
         \<longrightarrow> v \<notin> set (filtrar sel vias))
   \<and> (\<forall>out. procesar geod ops env vias cantones sel = Inr out \<longrightarrow>
         s_mapa out = por_canton ops (cantones_vias geod ops (filter (\<lambda>v. v_categoria v = sel) vias) cantones)
         \<and> filtro_categoria_str out = str_lower env sel)
   \<and> procesar geod ops env vias cantones sel
       = procesar geod ops env (filter (\<lambda>v. v_categoria v = sel) vias) cantones sel"
proof -
  have f: "filtrar sel (filter (\<lambda>v. v_categoria v = sel) vias) = filtrar sel vias"
    by (simp add: filtrar_def)
  have p: "procesar geod ops env vias cantones sel
       = procesar geod ops env (filter (\<lambda>v. v_categoria v = sel) vias) cantones sel"
    by (simp add: procesar_def f)
  have o: "s_mapa out = por_canton ops (cantones_vias geod ops (filter (\<lambda>v. v_categoria v = sel) vias) cantones)
         \<and> filtro_categoria_str out = str_lower env sel"
    if "procesar geod ops env vias cantones sel = Inr out" for out
    using that
    by (auto simp: procesar_def linea_101_def choropleth_def cantones_vias_def filtrar_def Let_def
        split: if_splits)
  show ?thesis using p o by (simp add: filtrar_def)
qed

lemma sample_procesar_ruta:
  "procesar grid_geod grid_ops sample_env sample_vias sample_cantones ''RUTA'' = Inr
     \<lparr>filtro_categoria_str = ''ruta'',
      s_tabla = [\<lparr>t_canton = ''A'', t_longitud = [Some 4], t_densidad = Fin (4 / 3)\<rparr>,
        \<lparr>t_canton = ''B'', t_longitud = [Some 2], t_densidad = Fin (1 / 2)\<rparr>,
        \<lparr>t_canton = ''C'', t_longitud = [Some 1], t_densidad = Fin (1 / 2)\<rparr>],
      s_barras = [\<lparr>cat_canton = ''A'', cat_categoria = ''RUTA'', cat_area = 3, cat_longitud = 4, longitud_canton = 4\<rparr>,
        \<lparr>cat_canton = ''B'', cat_categoria = ''RUTA'', cat_area = 4, cat_longitud = 2, longitud_canton = 2\<rparr>,
        \<lparr>cat_canton = ''C'', cat_categoria = ''RUTA'', cat_area = 2, cat_longitud = 1, longitud_canton = 1\<rparr>],
      s_pastel = [\<lparr>can_canton = ''A'', can_geometry = [1, 2, 3, 1], can_id = ''101'', can_area = 3, can_longitud = 4, can_densidad = Fin (4 / 3)\<rparr>,
        \<lparr>can_canton = ''B'', can_geometry = [4, 5], can_id = ''102'', can_area = 4, can_longitud = 2, can_densidad = Fin (1 / 2)\<rparr>,
        \<lparr>can_canton = ''C'', can_geometry = [6], can_id = ''103'', can_area = 2, can_longitud = 1, can_densidad = Fin (1 / 2)\<rparr>],
      s_mapa = [\<lparr>can_canton = ''A'', can_geometry = [1, 2, 3, 1], can_id = ''101'', can_area = 3, can_longitud = 4, can_densidad = Fin (4 / 3)\<rparr>,
        \<lparr>can_canton = ''B'', can_geometry = [4, 5], can_id = ''102'', can_area = 4, can_longitud = 2, can_densidad = Fin (1 / 2)\<rparr>,
        \<lparr>can_canton = ''C'', can_geometry = [6], can_id = ''103'', can_area = 2, can_longitud = 1, can_densidad = Fin (1 / 2)\<rparr>]\<rparr>"
proof -
  have l: "ascii_lower ''RUTA'' = ''ruta''" by code_simp
  show ?thesis
    by (simp add: procesar_def linea_101_def choropleth_def sample_env_def l sample_defs pipeline_defs
        por_categoria_def por_canton_def dissolve_def claves_def grupo_def con_densidad_def np_div_def
        tabla_def pivot_def pivot_cell_def top_15_def nlargest_def sort_desc_def sort_values_def
        top_15_por_categoria_def por_canton_pie_def relabel_def enumerate_eq_zip Let_def)
qed

theorem filter_is_exact_match_witness:
  "sample_via ''ruta'' ''3'' [7] \<in> set sample_vias
   \<and> str_lower sample_env ''ruta'' = str_lower sample_env ''RUTA''
   \<and> sample_via ''ruta'' ''3'' [7] \<notin> set (filtrar ''RUTA'' sample_vias)
   \<and> filtrar ''RUTA'' sample_vias = [sample_via ''RUTA'' ''1'' [1, 2, 3, 4, 5, 6], sample_via ''RUTA'' ''4'' [1, 20]]
   \<and> map_sum id filtro_categoria_str (procesar grid_geod grid_ops sample_env sample_vias sample_cantones ''RUTA'')
       = Inr ''ruta''
   \<and> map_sum id s_mapa (procesar grid_geod grid_ops sample_env sample_vias sample_cantones ''RUTA'')
       = Inr (por_canton grid_ops sample_cv)"
proof -
  have m: "sample_via ''ruta'' ''3'' [7] \<in> set sample_vias"
    by (simp add: sample_vias_def)
  have l: "str_lower sample_env ''ruta'' = str_lower sample_env ''RUTA''"
    unfolding sample_env_def by (simp, code_simp)
  have l': "str_lower sample_env ''RUTA'' = ''ruta''"
    unfolding sample_env_def by (simp, code_simp)
  have n: "v_categoria (sample_via ''ruta'' ''3'' [7::nat]) \<noteq> ''RUTA''"
    by (simp add: sample_via_def)
  note t = filter_is_exact_match [of "''RUTA''" sample_vias sample_env grid_geod grid_ops sample_cantones]
  from t m l n have a: "sample_via ''ruta'' ''3'' [7] \<notin> set (filtrar ''RUTA'' sample_vias)"
    by (simp add: sample_via_def)
  have b: "filtrar ''RUTA'' sample_vias = [sample_via ''RUTA'' ''1'' [1, 2, 3, 4, 5, 6], sample_via ''RUTA'' ''4'' [1, 20]]"
    by (simp add: filtrar_def sample_vias_def sample_via_def)
  obtain out where out: "procesar grid_geod grid_ops sample_env sample_vias sample_cantones ''RUTA'' = Inr out"
    using sample_procesar_ruta by blast
  with t have "s_mapa out = por_canton grid_ops (cantones_vias grid_geod grid_ops (filter (\<lambda>v. v_categoria v = ''RUTA'') sample_vias) sample_cantones)
      \<and> filtro_categoria_str out = str_lower sample_env ''RUTA''"
    by blast
  then have c: "s_mapa out = por_canton grid_ops sample_cv" "filtro_categoria_str out = ''ruta''"
    by (simp_all add: sample_cv_def filtrar_def l')
  from m l a b out c show ?thesis by simp
qed

subsection \<open>Loading\<close>

text \<open>
  C7, as the script has it. Loading stops with an error when a file is missing or cannot
  be parsed, and when a layer lacks a column the script selects; an error of either loader
  is the result of the whole script, so nothing is computed after it. The reference system
  of a layer is never read: a layer that has the columns loads the same way whatever its
  reference system is.
\<close>

theorem loader_fails_on_missing_file_or_column:
  "cargar_vias Missing = Inl DriverError \<and> cargar_vias Malformed = Inl DriverError
   \<and> cargar_cantones geod Missing = Inl DriverError \<and> cargar_cantones geod Malformed = Inl DriverError
   \<and> (\<not> set cols_vias \<subseteq> set (columns bad_v) \<longrightarrow> cargar_vias (GeoJSON bad_v) = Inl KeyError)
   \<and> (\<not> set cols_cantones \<subseteq> set (columns bad_c) \<longrightarrow> cargar_cantones geod (GeoJSON bad_c) = Inl KeyError)
   \<and> (\<forall>e. cargar_vias fv = Inl e \<longrightarrow> principal geod ops env fv fc i = Inl e)
   \<and> (\<forall>e l. cargar_vias fv' = Inr l \<and> cargar_cantones geod fc' = Inl e \<longrightarrow> principal geod ops env fv' fc' i = Inl e)
   \<and> (set cols_vias \<subseteq> set (columns lv) \<longrightarrow>
        cargar_vias (GeoJSON (lv\<lparr>crs := x\<rparr>)) = Inr (lv\<lparr>crs := x, columns := cols_vias\<rparr>))
   \<and> (set cols_cantones \<subseteq> set (columns lc) \<longrightarrow>
        cargar_cantones geod (GeoJSON (lc\<lparr>crs := x\<rparr>)) = Inr (map (con_area geod) (rows lc)))"
  by (auto simp: cargar_vias_def cargar_cantones_def read_file_def loc_columns_def principal_def
      cols_vias_def cols_cantones_def split: sum.splits)

theorem loader_fails_on_missing_file_or_column_witness:
  "\<not> set cols_vias \<subseteq> set (columns (sample_layer [''categoria'', ''geometry''] sample_vias))
   \<and> cargar_vias (GeoJSON (sample_layer [''categoria'', ''geometry''] sample_vias)) = Inl KeyError
   \<and> principal grid_geod grid_ops sample_env (GeoJSON (sample_layer [''categoria'', ''geometry''] sample_vias))
        (GeoJSON (sample_layer cols_cantones sample_cantones_rows)) 0 = Inl KeyError
   \<and> \<not> set cols_cantones \<subseteq> set (columns (sample_layer [''id'', ''geometry''] sample_cantones_rows))
   \<and> cargar_cantones grid_geod (GeoJSON (sample_layer [''id'', ''geometry''] sample_cantones_rows)) = Inl KeyError
   \<and> cargar_vias (GeoJSON (sample_layer cols_vias sample_vias)) = Inr (sample_layer cols_vias sample_vias)
   \<and> principal grid_geod grid_ops sample_env (GeoJSON (sample_layer cols_vias sample_vias)) Missing 0 = Inl DriverError
   \<and> set cols_vias \<subseteq> set (columns (sample_layer cols_vias sample_vias))
   \<and> cargar_vias (GeoJSON ((sample_layer cols_vias sample_vias)\<lparr>crs := ''EPSG:5367''\<rparr>)) = Inr crtm05_vias
   \<and> set cols_cantones \<subseteq> set (columns (sample_layer cols_cantones sample_cantones_rows))
   \<and> cargar_cantones grid_geod (GeoJSON ((sample_layer cols_cantones sample_cantones_rows)\<lparr>crs := ''EPSG:5367''\<rparr>))
        = Inr sample_cantones"
proof -
  let ?bad_v = "sample_layer [''categoria'', ''geometry''] sample_vias"
  let ?bad_c = "sample_layer [''id'', ''geometry''] sample_cantones_rows"
  let ?lv = "sample_layer cols_vias sample_vias"
  let ?lc = "sample_layer cols_cantones sample_cantones_rows"
  have bv: "\<not> set cols_vias \<subseteq> set (columns ?bad_v)"
    by (simp add: cols_vias_def sample_layer_def)
  have bc: "\<not> set cols_cantones \<subseteq> set (columns ?bad_c)"
    by (simp add: cols_cantones_def sample_layer_def)
  have gv: "set cols_vias \<subseteq> set (columns ?lv)"
    by (simp add: sample_layer_def)
  have gc: "set cols_cantones \<subseteq> set (columns ?lc)"
    by (simp add: sample_layer_def)
  have ok: "cargar_vias (GeoJSON ?lv) = Inr ?lv"
    by (simp add: cargar_vias_def read_file_def loc_columns_def sample_layer_def cols_vias_def)
  note t = loader_fails_on_missing_file_or_column [of grid_geod ?bad_v ?bad_c "GeoJSON ?bad_v" grid_ops
      sample_env "GeoJSON ?lc" 0 "GeoJSON ?lv" Missing ?lv "''EPSG:5367''" ?lc]
  from t bv have 1: "cargar_vias (GeoJSON ?bad_v) = Inl KeyError" by blast
  from t bc have 2: "cargar_cantones grid_geod (GeoJSON ?bad_c) = Inl KeyError" by blast
  from t 1 have 3: "principal grid_geod grid_ops sample_env (GeoJSON ?bad_v) (GeoJSON ?lc) 0 = Inl KeyError" by blast
  from t have m: "cargar_cantones grid_geod Missing = Inl DriverError" by blast
  from t ok m have 4: "principal grid_geod grid_ops sample_env (GeoJSON ?lv) Missing 0 = Inl DriverError" by blast
  from t gv have "cargar_vias (GeoJSON (?lv\<lparr>crs := ''EPSG:5367''\<rparr>))
      = Inr (?lv\<lparr>crs := ''EPSG:5367'', columns := cols_vias\<rparr>)"
    by blast
  then have 5: "cargar_vias (GeoJSON (?lv\<lparr>crs := ''EPSG:5367''\<rparr>)) = Inr crtm05_vias"
    by (simp add: crtm05_vias_def sample_layer_def)
  from t gc have "cargar_cantones grid_geod (GeoJSON (?lc\<lparr>crs := ''EPSG:5367''\<rparr>))
      = Inr (map (con_area grid_geod) (rows ?lc))"
    by blast
  then have 6: "cargar_cantones grid_geod (GeoJSON (?lc\<lparr>crs := ''EPSG:5367''\<rparr>)) = Inr sample_cantones"
    by (simp add: sample_cantones_def sample_layer_def)
  from bv bc gv gc ok 1 2 3 4 5 6 show ?thesis by blast
qed

text \<open>
  The road layer in the reference system EPSG:5367 (metres, not degrees) is loaded without
  an error.
\<close>

theorem loader_accepts_other_crs:
  "crs crtm05_vias \<noteq> ''EPSG:4326'' \<and> cargar_vias (GeoJSON crtm05_vias) = Inr crtm05_vias"
  by (simp add: crtm05_vias_def cargar_vias_def read_file_def loc_columns_def cols_vias_def)

subsection \<open>Canton area\<close>

text \<open>
  C4, as the script has it. The area of a canton is never negative, and it is positive
  exactly when the signed area that the geodesic engine returns is not zero. When the
  engine returns the opposite signed area for the polygon with its vertices in the
  opposite order, the canton with the reversed polygon has the same area.
\<close>

theorem area_nonnegative_and_winding_invariant:
  "0 \<le> c_area (con_area geod c)
   \<and> (0 < c_area (con_area geod c)) = (fst (geometry_area_perimeter geod (c_geometry c)) \<noteq> 0)
   \<and> (fst (geometry_area_perimeter geod (rev (c_geometry c))) = - fst (geometry_area_perimeter geod (c_geometry c))
        \<longrightarrow> c_area (con_area geod (c\<lparr>c_geometry := rev (c_geometry c)\<rparr>)) = c_area (con_area geod c))"
  by (simp add: con_area_def area_f_def)

theorem area_nonnegative_and_winding_invariant_witness:
  "fst (geometry_area_perimeter planar_geod square) = 1000000
   \<and> fst (geometry_area_perimeter planar_geod (rev square)) = - 1000000
   \<and> c_area (con_area planar_geod (sample_canton ''101'' ''A'' square)) = 1
   \<and> c_area (con_area planar_geod ((sample_canton ''101'' ''A'' square)\<lparr>c_geometry := rev square\<rparr>)) = 1"
proof -
  have a: "fst (geometry_area_perimeter planar_geod square) = 1000000"
    by (simp add: planar_geod_def square_def)
  have b: "fst (geometry_area_perimeter planar_geod (rev square)) = - 1000000"
    by (simp add: planar_geod_def square_def)
  have g: "c_geometry (sample_canton ''101'' ''A'' square) = square"
    by (simp add: sample_canton_def)
  have c: "c_area (con_area planar_geod (sample_canton ''101'' ''A'' square)) = 1"
    using a by (simp add: con_area_def area_f_def g)
  from area_nonnegative_and_winding_invariant [of planar_geod "sample_canton ''101'' ''A'' square"] a b
  have "c_area (con_area planar_geod ((sample_canton ''101'' ''A'' square)\<lparr>c_geometry := rev square\<rparr>))
      = c_area (con_area planar_geod (sample_canton ''101'' ''A'' square))"
    by (simp add: g)
  with a b c show ?thesis by simp
qed

text \<open>A canton whose polygon has no extent has area zero, which is not positive.\<close>

theorem area_zero_for_degenerate_polygon:
  "\<not> 0 < c_area (con_area planar_geod (sample_canton ''101'' ''A'' point_polygon))"
  by (simp add: con_area_def area_f_def planar_geod_def sample_canton_def point_polygon_def)

subsection \<open>Intersection and aggregation\<close>

text \<open>Keys and groups of a group-by.\<close>

lemma claves_set: "set (claves key xs) = key ` set xs"
  by (simp add: claves_def unique_set)

lemma claves_distinct: "distinct (claves key xs)"
  by (simp add: claves_def unique_distinct)

lemma grupo_nonempty: "k \<in> set (claves key xs) \<Longrightarrow> grupo key xs k \<noteq> []"
  by (auto simp: claves_set grupo_def filter_empty_conv)

lemma concat_singletons: "(\<And>k. k \<in> set ks \<Longrightarrow> h k = [g k]) \<Longrightarrow> concat (map h ks) = map g ks"
  by (induction ks) auto

text \<open>Rows of the intersection.\<close>

lemma clip_row: "r \<in> set (clip ops v c) \<Longrightarrow>
  intersection ops (v_geometry v) (c_geometry c) = Some (cv_geometry r) \<and> cv_categoria r = v_categoria v \<and>
  cv_codigo r = v_codigo v \<and> cv_id r = c_id c \<and> cv_canton r = c_canton c \<and> cv_provincia r = c_provincia c \<and>
  cv_area r = c_area c"
  by (auto simp: clip_def split: option.splits)

lemma overlay_row: "r \<in> set (overlay ops vias cantones) \<Longrightarrow> \<exists>v \<in> set vias. \<exists>c \<in> set cantones. r \<in> set (clip ops v c)"
  by (auto simp: overlay_def)


lemma cantones_vias_row: "r \<in> set (cantones_vias geod ops vias cantones) \<Longrightarrow>
   cv_longitud r = geometry_length geod (cv_geometry r) / 1000 \<and>
   (\<exists>v \<in> set vias. \<exists>c \<in> set cantones.
      intersection ops (v_geometry v) (c_geometry c) = Some (cv_geometry r) \<and> cv_categoria r = v_categoria v \<and>
      cv_codigo r = v_codigo v \<and> cv_id r = c_id c \<and> cv_canton r = c_canton c \<and> cv_area r = c_area c)"
proof -
  assume "r \<in> set (cantones_vias geod ops vias cantones)"
  then obtain r0 where r0: "r0 \<in> set (overlay ops vias cantones)" and r: "r = con_longitud geod r0"
    by (auto simp: cantones_vias_def)
  from overlay_row [OF r0] obtain v c where vc: "v \<in> set vias" "c \<in> set cantones" "r0 \<in> set (clip ops v c)"
    by blast
  from clip_row [OF vc(3)] vc(1,2) r show ?thesis
    by (auto simp: con_longitud_def)
qed


text \<open>Rows of the two aggregates.\<close>

lemma agg_canton_row: "r \<in> set (agg_canton ops k g) \<Longrightarrow>
   can_canton r = k \<and> can_longitud r = sum_list (map cv_longitud g) \<and>
   (\<exists>x xs. g = x # xs \<and> can_area r = cv_area x \<and> can_id r = cv_id x)"
  by (cases g) auto

lemma dissolve_row: "r \<in> set (dissolve ops cv) \<Longrightarrow>
   can_canton r \<in> cv_canton ` set cv \<and>
   can_longitud r = sum_list (map cv_longitud (grupo cv_canton cv (can_canton r))) \<and>
   (\<exists>x xs. grupo cv_canton cv (can_canton r) = x # xs \<and> can_area r = cv_area x \<and> can_id r = cv_id x)"
proof -
  assume "r \<in> set (dissolve ops cv)"
  then obtain k where k: "k \<in> set (claves cv_canton cv)" and r: "r \<in> set (agg_canton ops k (grupo cv_canton cv k))"
    by (auto simp: dissolve_def)
  from agg_canton_row [OF r] k show ?thesis by (auto simp: claves_set)
qed

lemma dissolve_cantons: "map can_canton (dissolve ops cv) = claves cv_canton cv"
proof -
  have "map can_canton (agg_canton ops k (grupo cv_canton cv k)) = [k]" if "k \<in> set (claves cv_canton cv)" for k
    using grupo_nonempty [OF that] by (cases "grupo cv_canton cv k") auto
  then have "concat (map (\<lambda>k. map can_canton (agg_canton ops k (grupo cv_canton cv k))) (claves cv_canton cv))
     = map (\<lambda>k. k) (claves cv_canton cv)"
    by (rule concat_singletons)
  then show ?thesis by (simp add: dissolve_def map_concat comp_def)
qed

lemma por_canton_row: "r \<in> set (por_canton ops cv) \<Longrightarrow>
   can_densidad r = np_div (can_longitud r) (can_area r) \<and>
   can_canton r \<in> cv_canton ` set cv \<and>
   can_longitud r = sum_list (map cv_longitud (grupo cv_canton cv (can_canton r))) \<and>
   (\<exists>x xs. grupo cv_canton cv (can_canton r) = x # xs \<and> can_area r = cv_area x \<and> can_id r = cv_id x)"
proof -
  assume "r \<in> set (por_canton ops cv)"
  then obtain r0 where r0: "r0 \<in> set (dissolve ops cv)" and r: "r = con_densidad r0"
    by (auto simp: por_canton_def)
  from dissolve_row [OF r0] r show ?thesis by (simp add: con_densidad_def)
qed

lemma por_canton_cantons: "map can_canton (por_canton ops cv) = claves cv_canton cv"
  using dissolve_cantons [of ops cv] by (simp add: por_canton_def comp_def con_densidad_def)

text \<open>Sums over the groups of a group-by.\<close>

lemma sum_list_indicator:
  "distinct ks \<Longrightarrow> sum_list (map (\<lambda>k. if a = k then (b::real) else 0) ks) = (if a \<in> set ks then b else 0)"
  by (induction ks) auto

lemma sum_list_groups:
  fixes f :: "'r \<Rightarrow> real"
  assumes "distinct ks" "key ` set xs \<subseteq> set ks"
  shows "sum_list (map (\<lambda>k. sum_list (map f (grupo key xs k))) ks) = sum_list (map f xs)"
  using assms(2)
proof (induction xs)
  case Nil
  then show ?case by (simp add: grupo_def)
next
  case (Cons x xs)
  have "sum_list (map (\<lambda>k. sum_list (map f (grupo key (x # xs) k))) ks)
      = sum_list (map (\<lambda>k. (if key x = k then f x else 0) + sum_list (map f (grupo key xs k))) ks)"
    by (rule arg_cong [where f = sum_list]) (auto simp: grupo_def)
  also have "\<dots> = sum_list (map (\<lambda>k. if key x = k then f x else 0) ks)
      + sum_list (map (\<lambda>k. sum_list (map f (grupo key xs k))) ks)"
    by (simp add: sum_list_addf)
  also have "\<dots> = f x + sum_list (map f xs)"
    using Cons assms(1) by (simp add: sum_list_indicator)
  finally show ?case by simp
qed

lemma agg_categoria_sum: "sum_list (map cat_longitud (agg_categoria k g)) = sum_list (map cv_longitud g)"
  by (cases g) auto

lemma agg_categoria_canton: "p \<in> set (agg_categoria k g) \<Longrightarrow> cat_canton p = fst k \<and> cat_categoria p = snd k"
  by (cases g) auto

lemma filter_concat_keys:
  assumes "\<And>k p. p \<in> set (h k) \<Longrightarrow> P p = Q k"
  shows "filter P (concat (map h ks)) = concat (map h (filter Q ks))"
proof (induction ks)
  case Nil
  then show ?case by simp
next
  case (Cons k ks)
  have "filter P (h k) = (if Q k then h k else [])"
    using assms [of _ k] by (auto simp: filter_empty_conv filter_id_conv)
  with Cons show ?case by simp
qed

lemma sum_concat_map:
  fixes f :: "'a \<Rightarrow> real"
  shows "sum_list (map f (concat (map h ks))) = sum_list (map (\<lambda>k. sum_list (map f (h k))) ks)"
  by (induction ks) auto

lemma por_categoria_canton_sum:
  "sum_list (map cat_longitud (filter (\<lambda>p. cat_canton p = c) (por_categoria cv)))
     = sum_list (map cv_longitud (grupo cv_canton cv c))"
proof -
  let ?key = "\<lambda>r. (cv_canton r, cv_categoria r)"
  let ?ks = "filter (\<lambda>k. fst k = c) (claves ?key cv)"
  let ?xs = "grupo cv_canton cv c"
  have g: "grupo ?key cv k = grupo ?key ?xs k" if "fst k = c" for k
    using that by (auto simp: grupo_def intro: filter_cong)
  have "filter (\<lambda>p. cat_canton p = c) (por_categoria cv)
      = concat (map (\<lambda>k. agg_categoria k (grupo ?key cv k)) ?ks)"
    unfolding por_categoria_def
    by (rule filter_concat_keys) (auto dest: agg_categoria_canton)
  then have "sum_list (map cat_longitud (filter (\<lambda>p. cat_canton p = c) (por_categoria cv)))
      = sum_list (map (\<lambda>k. sum_list (map cv_longitud (grupo ?key cv k))) ?ks)"
    by (simp add: sum_concat_map agg_categoria_sum)
  also have "\<dots> = sum_list (map (\<lambda>k. sum_list (map cv_longitud (grupo ?key ?xs k))) ?ks)"
    by (rule arg_cong [where f = sum_list]) (simp add: g)
  also have "\<dots> = sum_list (map cv_longitud ?xs)"
  proof (rule sum_list_groups)
    show "distinct ?ks" by (simp add: claves_distinct)
    show "?key ` set ?xs \<subseteq> set ?ks" by (auto simp: claves_set grupo_def)
  qed
  finally show ?thesis .
qed

lemma por_categoria_keys:
  "map (\<lambda>p. (cat_canton p, cat_categoria p)) (por_categoria cv) = claves (\<lambda>r. (cv_canton r, cv_categoria r)) cv"
proof -
  let ?key = "\<lambda>r. (cv_canton r, cv_categoria r)"
  have "map (\<lambda>p. (cat_canton p, cat_categoria p)) (agg_categoria k (grupo ?key cv k)) = [k]"
    if "k \<in> set (claves ?key cv)" for k
    using grupo_nonempty [OF that] by (cases "grupo ?key cv k") auto
  then have "concat (map (\<lambda>k. map (\<lambda>p. (cat_canton p, cat_categoria p)) (agg_categoria k (grupo ?key cv k))) (claves ?key cv))
     = map (\<lambda>k. k) (claves ?key cv)"
    by (rule concat_singletons)
  then show ?thesis by (simp add: por_categoria_def map_concat comp_def)
qed

lemma por_categoria_cantons: "cat_canton ` set (por_categoria cv) = cv_canton ` set cv"
proof -
  have "cat_canton ` set (por_categoria cv) = fst ` set (map (\<lambda>p. (cat_canton p, cat_categoria p)) (por_categoria cv))"
    by (simp add: image_image)
  also have "\<dots> = fst ` (\<lambda>r. (cv_canton r, cv_categoria r)) ` set cv"
    by (simp only: por_categoria_keys claves_set)
  finally show ?thesis by (simp add: image_image)
qed

text \<open>The sample layers, evaluated.\<close>

lemma sample_cv_eval: "sample_cv =
  [\<lparr>cv_categoria = ''RUTA'', cv_codigo = ''1'', cv_id = ''101'', cv_canton = ''A'', cv_provincia = ''P'', cv_area = 3, cv_geometry = [1, 2, 3], cv_longitud = 3\<rparr>,
   \<lparr>cv_categoria = ''RUTA'', cv_codigo = ''1'', cv_id = ''102'', cv_canton = ''B'', cv_provincia = ''P'', cv_area = 4, cv_geometry = [4, 5], cv_longitud = 2\<rparr>,
   \<lparr>cv_categoria = ''RUTA'', cv_codigo = ''1'', cv_id = ''103'', cv_canton = ''C'', cv_provincia = ''P'', cv_area = 2, cv_geometry = [6], cv_longitud = 1\<rparr>,
   \<lparr>cv_categoria = ''RUTA'', cv_codigo = ''4'', cv_id = ''101'', cv_canton = ''A'', cv_provincia = ''P'', cv_area = 3, cv_geometry = [1], cv_longitud = 1\<rparr>]"
  by (simp add: sample_cv_def sample_defs pipeline_defs)

lemma sample_por_canton_eval: "por_canton grid_ops sample_cv = [
  \<lparr>can_canton = ''A'', can_geometry = [1, 2, 3, 1], can_id = ''101'', can_area = 3, can_longitud = 4, can_densidad = Fin (4 / 3)\<rparr>,
  \<lparr>can_canton = ''B'', can_geometry = [4, 5], can_id = ''102'', can_area = 4, can_longitud = 2, can_densidad = Fin (1 / 2)\<rparr>,
  \<lparr>can_canton = ''C'', can_geometry = [6], can_id = ''103'', can_area = 2, can_longitud = 1, can_densidad = Fin (1 / 2)\<rparr>]"
  by (simp add: sample_cv_eval por_canton_def dissolve_def claves_def grupo_def con_densidad_def np_div_def grid_ops_def)



text \<open>
  C1. Every row of the per-canton aggregate has as density the quotient of its length by
  its area, where the length is the sum over the intersection rows of that canton and the
  area is that of the first of them. The aggregate has one row for every canton that occurs
  in the intersection and none for any other canton, so no quotient is formed for a canton
  without a road of the selected category.
\<close>

theorem density_is_length_over_area: "(\<forall>r \<in> set (por_canton ops cv).
     can_densidad r = np_div (can_longitud r) (can_area r) \<and>
     (can_area r \<noteq> 0 \<longrightarrow> can_densidad r = Fin (can_longitud r / can_area r)) \<and>
     can_longitud r = sum_list (map cv_longitud (grupo cv_canton cv (can_canton r))) \<and>
     (\<exists>x xs. grupo cv_canton cv (can_canton r) = x # xs \<and> can_area r = cv_area x))
   \<and> map can_canton (por_canton ops cv) = claves cv_canton cv
   \<and> (\<forall>k. k \<notin> cv_canton ` set cv \<longrightarrow> k \<notin> can_canton ` set (por_canton ops cv))"
proof (intro conjI ballI allI impI)
  fix r assume r: "r \<in> set (por_canton ops cv)"
  note row = por_canton_row [OF r]
  from row show "can_densidad r = np_div (can_longitud r) (can_area r)" by simp
  from row show "can_longitud r = sum_list (map cv_longitud (grupo cv_canton cv (can_canton r)))" by simp
  from row show "\<exists>x xs. grupo cv_canton cv (can_canton r) = x # xs \<and> can_area r = cv_area x" by blast
  assume "can_area r \<noteq> 0"
  with row show "can_densidad r = Fin (can_longitud r / can_area r)" by (simp add: np_div_def)
next
  show "map can_canton (por_canton ops cv) = claves cv_canton cv" by (rule por_canton_cantons)
next
  fix k assume "k \<notin> cv_canton ` set cv"
  moreover have "can_canton ` set (por_canton ops cv) = cv_canton ` set cv"
    using por_canton_cantons [of ops cv] claves_set [of cv_canton cv] by (metis set_map)
  ultimately show "k \<notin> can_canton ` set (por_canton ops cv)" by simp
qed

theorem density_is_length_over_area_witness:
  "map can_canton (por_canton grid_ops sample_cv) = [''A'', ''B'', ''C'']
   \<and> map can_longitud (por_canton grid_ops sample_cv) = [4, 2, 1]
   \<and> map can_area (por_canton grid_ops sample_cv) = [3, 4, 2]
   \<and> map can_densidad (por_canton grid_ops sample_cv) = [Fin (4 / 3), Fin (1 / 2), Fin (1 / 2)]
   \<and> ''D'' \<in> c_canton ` set sample_cantones
   \<and> ''D'' \<notin> cv_canton ` set sample_cv
   \<and> ''D'' \<notin> can_canton ` set (por_canton grid_ops sample_cv)"
proof -
  have d: "''D'' \<notin> cv_canton ` set sample_cv" by (simp add: sample_cv_eval)
  have e: "''D'' \<in> c_canton ` set sample_cantones" by (simp add: sample_defs)
  from density_is_length_over_area [of grid_ops sample_cv] d have "''D'' \<notin> can_canton ` set (por_canton grid_ops sample_cv)"
    by blast
  with d e show ?thesis by (simp add: sample_por_canton_eval)
qed

lemma sample_cv_all_eval: "sample_cv_all =
  [\<lparr>cv_categoria = ''RUTA'', cv_codigo = ''1'', cv_id = ''101'', cv_canton = ''A'', cv_provincia = ''P'', cv_area = 3, cv_geometry = [1, 2, 3], cv_longitud = 3\<rparr>,
   \<lparr>cv_categoria = ''RUTA'', cv_codigo = ''1'', cv_id = ''102'', cv_canton = ''B'', cv_provincia = ''P'', cv_area = 4, cv_geometry = [4, 5], cv_longitud = 2\<rparr>,
   \<lparr>cv_categoria = ''RUTA'', cv_codigo = ''1'', cv_id = ''103'', cv_canton = ''C'', cv_provincia = ''P'', cv_area = 2, cv_geometry = [6], cv_longitud = 1\<rparr>,
   \<lparr>cv_categoria = ''AUTOPISTA'', cv_codigo = ''2'', cv_id = ''101'', cv_canton = ''A'', cv_provincia = ''P'', cv_area = 3, cv_geometry = [3], cv_longitud = 1\<rparr>,
   \<lparr>cv_categoria = ''AUTOPISTA'', cv_codigo = ''2'', cv_id = ''102'', cv_canton = ''B'', cv_provincia = ''P'', cv_area = 4, cv_geometry = [4], cv_longitud = 1\<rparr>,
   \<lparr>cv_categoria = ''RUTA'', cv_codigo = ''4'', cv_id = ''101'', cv_canton = ''A'', cv_provincia = ''P'', cv_area = 3, cv_geometry = [1], cv_longitud = 1\<rparr>]"
  by (simp add: sample_cv_all_def sample_defs pipeline_defs)

lemma sample_por_categoria_all_eval: "por_categoria sample_cv_all =
  [\<lparr>cat_canton = ''A'', cat_categoria = ''AUTOPISTA'', cat_area = 3, cat_longitud = 1\<rparr>,
   \<lparr>cat_canton = ''A'', cat_categoria = ''RUTA'', cat_area = 3, cat_longitud = 4\<rparr>,
   \<lparr>cat_canton = ''B'', cat_categoria = ''AUTOPISTA'', cat_area = 4, cat_longitud = 1\<rparr>,
   \<lparr>cat_canton = ''B'', cat_categoria = ''RUTA'', cat_area = 4, cat_longitud = 2\<rparr>,
   \<lparr>cat_canton = ''C'', cat_categoria = ''RUTA'', cat_area = 2, cat_longitud = 1\<rparr>]"
  by (simp add: sample_cv_all_eval por_categoria_def claves_def grupo_def)

lemma sample_por_canton_all_eval: "por_canton grid_ops sample_cv_all = [
  \<lparr>can_canton = ''A'', can_geometry = [1, 2, 3, 3, 1], can_id = ''101'', can_area = 3, can_longitud = 5, can_densidad = Fin (5 / 3)\<rparr>,
  \<lparr>can_canton = ''B'', can_geometry = [4, 5, 4], can_id = ''102'', can_area = 4, can_longitud = 3, can_densidad = Fin (3 / 4)\<rparr>,
  \<lparr>can_canton = ''C'', can_geometry = [6], can_id = ''103'', can_area = 2, can_longitud = 1, can_densidad = Fin (1 / 2)\<rparr>]"
  by (simp add: sample_cv_all_eval por_canton_def dissolve_def claves_def grupo_def con_densidad_def np_div_def grid_ops_def)

lemma twin_cv_eval: "twin_cv =
  [\<lparr>cv_categoria = ''RUTA'', cv_codigo = ''1'', cv_id = ''101'', cv_canton = ''A'', cv_provincia = ''P'', cv_area = 3, cv_geometry = [1, 2, 3], cv_longitud = 3\<rparr>,
   \<lparr>cv_categoria = ''RUTA'', cv_codigo = ''1'', cv_id = ''105'', cv_canton = ''A'', cv_provincia = ''P'', cv_area = 2, cv_geometry = [4, 5], cv_longitud = 2\<rparr>,
   \<lparr>cv_categoria = ''RUTA'', cv_codigo = ''4'', cv_id = ''101'', cv_canton = ''A'', cv_provincia = ''P'', cv_area = 3, cv_geometry = [1], cv_longitud = 1\<rparr>]"
  by (simp add: twin_cv_def twin_cantones_def sample_defs pipeline_defs)

text \<open>
  C3. The length of every row of the per-canton aggregate is the sum of the lengths of the
  rows of the per-(canton, category) aggregate that carry the same canton, and the two
  aggregates have the same cantons.
\<close>

theorem canton_total_is_sum_of_category_totals:
  "(\<forall>r \<in> set (por_canton ops cv).
      can_longitud r = sum_list (map cat_longitud (filter (\<lambda>p. cat_canton p = can_canton r) (por_categoria cv))))
   \<and> cat_canton ` set (por_categoria cv) = can_canton ` set (por_canton ops cv)"
proof -
  have "can_canton ` set (por_canton ops cv) = cv_canton ` set cv"
    using por_canton_cantons [of ops cv] claves_set [of cv_canton cv] by (metis set_map)
  then show ?thesis
    using por_canton_row [of _ ops cv] by (simp add: por_categoria_canton_sum por_categoria_cantons)
qed

theorem canton_total_is_sum_of_category_totals_witness:
  "map can_canton (por_canton grid_ops sample_cv_all) = [''A'', ''B'', ''C'']
   \<and> map can_longitud (por_canton grid_ops sample_cv_all) = [5, 3, 1]
   \<and> map cat_longitud (filter (\<lambda>p. cat_canton p = ''A'') (por_categoria sample_cv_all)) = [1, 4]
   \<and> map cat_longitud (filter (\<lambda>p. cat_canton p = ''B'') (por_categoria sample_cv_all)) = [1, 2]
   \<and> map cat_longitud (filter (\<lambda>p. cat_canton p = ''C'') (por_categoria sample_cv_all)) = [1]
   \<and> sum_list (map cat_longitud (filter (\<lambda>p. cat_canton p = ''A'') (por_categoria sample_cv_all))) = 5"
proof -
  let ?r = "\<lparr>can_canton = ''A'', can_geometry = [1, 2, 3, 3, 1 :: nat], can_id = ''101'', can_area = 3,
     can_longitud = 5, can_densidad = Fin (5 / 3)\<rparr>"
  have "?r \<in> set (por_canton grid_ops sample_cv_all)"
    by (simp add: sample_por_canton_all_eval)
  with canton_total_is_sum_of_category_totals [of grid_ops sample_cv_all]
  have "can_longitud ?r = sum_list (map cat_longitud (filter (\<lambda>p. cat_canton p = can_canton ?r) (por_categoria sample_cv_all)))"
    by blast
  then have "sum_list (map cat_longitud (filter (\<lambda>p. cat_canton p = ''A'') (por_categoria sample_cv_all))) = 5"
    by simp
  then show ?thesis
    by (simp add: sample_por_canton_all_eval sample_por_categoria_all_eval)
qed

text \<open>
  C9, as the script has it. When no two features of the canton layer carry the same
  canton name with different areas, all the intersection rows of one canton carry the same
  area, and the area that each aggregate takes from the first row of a group is the area
  of every row of that canton, whatever the order of the rows.
\<close>

theorem area_constant_within_canton:
  assumes "\<forall>c1 \<in> set cantones. \<forall>c2 \<in> set cantones. c_canton c1 = c_canton c2 \<longrightarrow> c_area c1 = c_area c2"
  shows "(\<forall>r1 \<in> set (cantones_vias geod ops vias cantones). \<forall>r2 \<in> set (cantones_vias geod ops vias cantones).
            cv_canton r1 = cv_canton r2 \<longrightarrow> cv_area r1 = cv_area r2)
     \<and> (\<forall>r \<in> set (por_canton ops (cantones_vias geod ops vias cantones)).
          \<forall>x \<in> set (cantones_vias geod ops vias cantones). cv_canton x = can_canton r \<longrightarrow> cv_area x = can_area r)
     \<and> (\<forall>p \<in> set (por_categoria (cantones_vias geod ops vias cantones)).
          \<forall>x \<in> set (cantones_vias geod ops vias cantones). cv_canton x = cat_canton p \<longrightarrow> cv_area x = cat_area p)"
proof -
  let ?cv = "cantones_vias geod ops vias cantones"
  have a: "cv_area r1 = cv_area r2" if "r1 \<in> set ?cv" "r2 \<in> set ?cv" "cv_canton r1 = cv_canton r2" for r1 r2
  proof -
    from cantones_vias_row [OF that(1)] obtain c1 where c1: "c1 \<in> set cantones" "cv_canton r1 = c_canton c1" "cv_area r1 = c_area c1"
      by blast
    from cantones_vias_row [OF that(2)] obtain c2 where c2: "c2 \<in> set cantones" "cv_canton r2 = c_canton c2" "cv_area r2 = c_area c2"
      by blast
    from assms c1 c2 that(3) show ?thesis by metis
  qed
  have b: "cv_area x = can_area r" if "r \<in> set (por_canton ops ?cv)" "x \<in> set ?cv" "cv_canton x = can_canton r" for r x
  proof -
    from por_canton_row [OF that(1)] obtain y ys where y: "grupo cv_canton ?cv (can_canton r) = y # ys" "can_area r = cv_area y"
      by blast
    then have "y \<in> set (grupo cv_canton ?cv (can_canton r))" by simp
    then have "y \<in> set ?cv" "cv_canton y = can_canton r" by (simp_all add: grupo_def)
    with a [of x y] that y show ?thesis by simp
  qed
  have c: "cv_area x = cat_area p" if "p \<in> set (por_categoria ?cv)" "x \<in> set ?cv" "cv_canton x = cat_canton p" for p x
  proof -
    let ?key = "\<lambda>r. (cv_canton r, cv_categoria r)"
    from that(1) obtain k where k: "p \<in> set (agg_categoria k (grupo ?key ?cv k))"
      by (auto simp: por_categoria_def)
    then obtain y ys where y: "grupo ?key ?cv k = y # ys" "cat_area p = cv_area y" "cat_canton p = fst k"
      by (cases "grupo ?key ?cv k") auto
    then have "y \<in> set (grupo ?key ?cv k)" by simp
    then have "y \<in> set ?cv" "cv_canton y = fst k" by (auto simp: grupo_def)
    with a [of x y] that y show ?thesis by simp
  qed
  show ?thesis using a b c by blast
qed


theorem area_constant_within_canton_witness:
  "map c_canton sample_cantones = [''A'', ''B'', ''C'', ''D'']
   \<and> map c_area sample_cantones = [3, 4, 2, 2]
   \<and> map cv_canton sample_cv = [''A'', ''B'', ''C'', ''A'']
   \<and> map cv_area sample_cv = [3, 4, 2, 3]
   \<and> map can_area (por_canton grid_ops sample_cv) = [3, 4, 2]
   \<and> cv_area (sample_cv ! 0) = cv_area (sample_cv ! 3)"
proof -
  have h: "\<forall>c1 \<in> set sample_cantones. \<forall>c2 \<in> set sample_cantones. c_canton c1 = c_canton c2 \<longrightarrow> c_area c1 = c_area c2"
    by (simp add: sample_defs)
  have m: "sample_cv ! 0 \<in> set sample_cv" "sample_cv ! 3 \<in> set sample_cv" "cv_canton (sample_cv ! 0) = cv_canton (sample_cv ! 3)"
    by (simp_all add: sample_cv_eval)
  from area_constant_within_canton [OF h, of grid_geod grid_ops "filtrar ''RUTA'' sample_vias"] m
  have "cv_area (sample_cv ! 0) = cv_area (sample_cv ! 3)"
    unfolding sample_cv_def by blast
  moreover have "map c_canton sample_cantones = [''A'', ''B'', ''C'', ''D'']" "map c_area sample_cantones = [3, 4, 2, 2]"
    by (simp_all add: sample_defs)
  moreover have "map can_area (por_canton grid_ops sample_cv) = [3, 4, 2]"
    by (simp add: sample_por_canton_eval)
  moreover have "map cv_canton sample_cv = [''A'', ''B'', ''C'', ''A'']" "map cv_area sample_cv = [3, 4, 2, 3]"
    by (simp_all add: sample_cv_eval)
  ultimately show ?thesis by blast
qed


text \<open>
  Two features of the canton layer with the same name and different areas: the intersection
  rows of that name carry both areas, and the aggregate keeps the first.
\<close>

theorem area_differs_within_canton_name:
  "map c_canton twin_cantones = [''A'', ''A'']
   \<and> map cv_canton twin_cv = [''A'', ''A'', ''A'']
   \<and> map cv_area twin_cv = [3, 2, 3]
   \<and> map can_area (por_canton grid_ops twin_cv) = [3]"
proof -
  have "map c_canton twin_cantones = [''A'', ''A'']"
    by (simp add: twin_cantones_def sample_defs)
  moreover have "map can_area (por_canton grid_ops twin_cv) = [3]"
    by (simp add: twin_cv_eval por_canton_def dissolve_def claves_def grupo_def con_densidad_def)
  moreover have "map cv_canton twin_cv = [''A'', ''A'', ''A'']" "map cv_area twin_cv = [3, 2, 3]"
    by (simp_all add: twin_cv_eval)
  ultimately show ?thesis by blast
qed

subsection \<open>Charts\<close>

lemma relabel_enumerate:
  "map relabel (enumerate n xs) = take (15 - n) xs @ map (\<lambda>r. r\<lparr>can_canton := ''Otros cantones''\<rparr>) (drop (15 - n) xs)"
proof (induction xs arbitrary: n)
  case Nil
  then show ?case by simp
next
  case (Cons x xs)
  show ?case
  proof (cases "15 \<le> n")
    case True
    then show ?thesis using Cons [of "Suc n"] by (simp add: relabel_def)
  next
    case False
    then obtain m where m: "15 - n = Suc m" by (cases "15 - n") auto
    then have "15 - Suc n = m" by simp
    with m False show ?thesis using Cons [of "Suc n"] by (simp add: relabel_def)
  qed
qed

lemma por_canton_pie_split:
  "por_canton_pie ties pn = take 15 (sort_values ties can_longitud pn)
      @ map (\<lambda>r. r\<lparr>can_canton := ''Otros cantones''\<rparr>) (drop 15 (sort_values ties can_longitud pn))"
  using relabel_enumerate [of 0] by (simp add: por_canton_pie_def)

lemma take_drop_pie:
  "take 15 (por_canton_pie ties pn) = take 15 (sort_values ties can_longitud pn)"
  "drop 15 (por_canton_pie ties pn) = map (\<lambda>r. r\<lparr>can_canton := ''Otros cantones''\<rparr>) (drop 15 (sort_values ties can_longitud pn))"
  by (simp_all add: por_canton_pie_split min_def)

text \<open>Two decreasing orders of the same rows have the same column of keys.\<close>

lemma map_sort_key: "map g (sort_key g ys) = sort (map g ys)"
  by (rule properties_for_sort [symmetric]) simp_all

lemma sort_values_keys:
  fixes f :: "'r \<Rightarrow> real"
  assumes "mset (ties xs) = mset xs"
  shows "map f (sort_values ties f xs) = map f (sort_desc f xs)"
proof -
  let ?g = "\<lambda>r. - f r"
  have "mset (map ?g (ties xs)) = mset (map ?g xs)"
    using assms by (metis mset_map)
  then have "sort (map ?g (ties xs)) = sort (map ?g xs)"
    by (metis sorted_list_of_multiset_mset)
  then have "map ?g (sort_values ties f xs) = map ?g (sort_desc f xs)"
    by (simp add: sort_values_def sort_desc_def map_sort_key)
  then have "map uminus (map ?g (sort_values ties f xs)) = map uminus (map ?g (sort_desc f xs))"
    by simp
  then show ?thesis by (simp add: comp_def)
qed

text \<open>
  C8, as the script has it. Whatever order quicksort leaves among equal lengths: in the
  data of the pie chart the rows from position 15 on, in decreasing order of length, are the
  ones renamed to the common name, and the rows before them keep their names. The lengths
  of those first fifteen rows are the lengths of the fifteen largest cantons of the bar
  chart, no renamed row is longer than any of them, and the lengths of the renamed rows
  together with the fifteen largest are the lengths of all cantons, each as often as it
  occurs. So the sum of the renamed rows is the total of all cantons minus the sum of the
  fifteen largest when the sums are taken without rounding.
\<close>

theorem other_bucket_is_rest_after_top_15:
  assumes "mset (ties pn) = mset pn"
  shows "(\<forall>r \<in> set (drop 15 (por_canton_pie ties pn)). can_canton r = ''Otros cantones'')
   \<and> take 15 (por_canton_pie ties pn) = take 15 (sort_values ties can_longitud pn)
   \<and> map can_longitud (take 15 (por_canton_pie ties pn)) = map snd (top_15 pn)
   \<and> (\<forall>x \<in> set (map can_longitud (drop 15 (por_canton_pie ties pn))). \<forall>y \<in> set (map snd (top_15 pn)). x \<le> y)
   \<and> mset (map can_longitud (drop 15 (por_canton_pie ties pn))) + mset (map snd (top_15 pn))
       = mset (map can_longitud pn)
   \<and> sum_list (map can_longitud (drop 15 (por_canton_pie ties pn)))
       = sum_list (map can_longitud pn) - sum_list (map snd (top_15 pn))"
proof -
  let ?s = "sort_values ties can_longitud pn"
  let ?pie = "por_canton_pie ties pn"
  have k: "map can_longitud ?s = map can_longitud (sort_desc can_longitud pn)"
    using assms by (rule sort_values_keys)
  have o: "\<forall>r \<in> set (drop 15 ?pie). can_canton r = ''Otros cantones''"
    by (auto simp: take_drop_pie)
  have t: "take 15 ?pie = take 15 ?s"
    by (simp add: take_drop_pie)
  have top: "map snd (top_15 pn) = take 15 (map can_longitud ?s)"
    by (simp add: top_15_def nlargest_def comp_def k take_map)
  have l: "map can_longitud (take 15 ?pie) = map snd (top_15 pn)"
    by (simp add: t top take_map)
  have d: "map can_longitud (drop 15 ?pie) = drop 15 (map can_longitud ?s)"
    by (simp add: take_drop_pie comp_def drop_map)
  have "sorted (map (\<lambda>r. - can_longitud r) ?s)"
    by (simp add: sort_values_def)
  then have "sorted (map (\<lambda>r. - can_longitud r) (take 15 ?s) @ map (\<lambda>r. - can_longitud r) (drop 15 ?s))"
    by (simp only: map_append [symmetric] append_take_drop_id)
  then have "\<forall>a \<in> set (take 15 ?s). \<forall>b \<in> set (drop 15 ?s). can_longitud b \<le> can_longitud a"
    by (simp add: sorted_append)
  then have "\<forall>x \<in> set (map can_longitud (drop 15 ?s)). \<forall>y \<in> set (map can_longitud (take 15 ?s)). x \<le> y"
    by simp
  then have r: "\<forall>x \<in> set (map can_longitud (drop 15 ?pie)). \<forall>y \<in> set (map snd (top_15 pn)). x \<le> y"
    by (simp only: d top take_map drop_map)
  have "mset (map can_longitud pn) = mset (map can_longitud ?s)"
    using assms by (simp add: sort_values_def)
  also have "\<dots> = mset (take 15 (map can_longitud ?s) @ drop 15 (map can_longitud ?s))"
    by simp
  finally have m: "mset (map can_longitud (drop 15 ?pie)) + mset (map snd (top_15 pn)) = mset (map can_longitud pn)"
    by (simp add: top d del: append_take_drop_id)
  have "sum_list (map can_longitud pn) = sum_mset (mset (map can_longitud pn))"
    by (simp only: sum_mset_sum_list)
  also have "\<dots> = sum_mset (mset (map can_longitud (drop 15 ?pie)) + mset (map snd (top_15 pn)))"
    by (simp only: m)
  also have "\<dots> = sum_list (map can_longitud (drop 15 ?pie)) + sum_list (map snd (top_15 pn))"
    by (simp only: sum_mset.union sum_mset_sum_list)
  finally have s: "sum_list (map can_longitud (drop 15 ?pie))
       = sum_list (map can_longitud pn) - sum_list (map snd (top_15 pn))"
    by simp
  show ?thesis using o t l r m s by blast
qed


lemma sample_sorted_rev: "sort_values rev can_longitud sample_por_canton =
   [sample_agg ''c02'' 17, sample_agg ''c10'' 16, sample_agg ''c14'' 15, sample_agg ''c07'' 14,
    sample_agg ''c16'' 13, sample_agg ''c05'' 12, sample_agg ''c12'' 11, sample_agg ''c17'' 10,
    sample_agg ''c04'' 9, sample_agg ''c09'' 8, sample_agg ''c13'' 7, sample_agg ''c15'' 6,
    sample_agg ''c06'' 5, sample_agg ''c11'' 4, sample_agg ''c01'' 3, sample_agg ''c08'' 2,
    sample_agg ''c03'' 1]"
  by (simp add: sort_values_def sample_por_canton_def sample_agg_def)

lemma sample_sorted: "sort_desc can_longitud sample_por_canton =
   [sample_agg ''c02'' 17, sample_agg ''c10'' 16, sample_agg ''c14'' 15, sample_agg ''c07'' 14,
    sample_agg ''c16'' 13, sample_agg ''c05'' 12, sample_agg ''c12'' 11, sample_agg ''c17'' 10,
    sample_agg ''c04'' 9, sample_agg ''c09'' 8, sample_agg ''c13'' 7, sample_agg ''c15'' 6,
    sample_agg ''c06'' 5, sample_agg ''c11'' 4, sample_agg ''c01'' 3, sample_agg ''c08'' 2,
    sample_agg ''c03'' 1]"
  by (simp add: sort_desc_def sample_por_canton_def sample_agg_def)

theorem other_bucket_is_rest_after_top_15_witness:
  "mset (rev sample_por_canton) = mset sample_por_canton
   \<and> length sample_por_canton = 17
   \<and> map can_canton (drop 15 (por_canton_pie rev sample_por_canton)) = [''Otros cantones'', ''Otros cantones'']
   \<and> map can_longitud (drop 15 (por_canton_pie rev sample_por_canton)) = [2, 1]
   \<and> map can_longitud (take 15 (por_canton_pie rev sample_por_canton))
       = [17, 16, 15, 14, 13, 12, 11, 10, 9, 8, 7, 6, 5, 4, 3]
   \<and> map snd (top_15 sample_por_canton) = [17, 16, 15, 14, 13, 12, 11, 10, 9, 8, 7, 6, 5, 4, 3]
   \<and> sum_list (map can_longitud sample_por_canton) = 153
   \<and> sum_list (map snd (top_15 sample_por_canton)) = 150
   \<and> sum_list (map can_longitud (drop 15 (por_canton_pie rev sample_por_canton))) = 153 - 150"
proof -
  have h: "mset (rev sample_por_canton) = mset sample_por_canton"
    by simp
  have tot: "sum_list (map can_longitud sample_por_canton) = 153"
    by (simp add: sample_por_canton_def sample_agg_def)
  have tops: "map snd (top_15 sample_por_canton) = [17, 16, 15, 14, 13, 12, 11, 10, 9, 8, 7, 6, 5, 4, 3]"
    by (simp add: top_15_def nlargest_def sample_sorted sample_agg_def)
  then have top: "sum_list (map snd (top_15 sample_por_canton)) = 150"
    by simp
  note t = other_bucket_is_rest_after_top_15 [of rev sample_por_canton, OF h]
  from t have "map can_longitud (take 15 (por_canton_pie rev sample_por_canton)) = map snd (top_15 sample_por_canton)"
    by blast
  with tops have f: "map can_longitud (take 15 (por_canton_pie rev sample_por_canton))
       = [17, 16, 15, 14, 13, 12, 11, 10, 9, 8, 7, 6, 5, 4, 3]"
    by (simp only:)
  from t have "sum_list (map can_longitud (drop 15 (por_canton_pie rev sample_por_canton)))
       = sum_list (map can_longitud sample_por_canton) - sum_list (map snd (top_15 sample_por_canton))"
    by blast
  with tot top have d: "sum_list (map can_longitud (drop 15 (por_canton_pie rev sample_por_canton))) = 153 - 150"
    by (simp only:)
  have "length sample_por_canton = 17" by (simp add: sample_por_canton_def)
  moreover have "map can_canton (drop 15 (por_canton_pie rev sample_por_canton)) = [''Otros cantones'', ''Otros cantones'']"
    "map can_longitud (drop 15 (por_canton_pie rev sample_por_canton)) = [2, 1]"
    by (simp_all add: take_drop_pie sample_sorted_rev sample_agg_def)
  ultimately show ?thesis using h tot tops top f d by blast
qed


text \<open>
  Fifteen cantons with 16 to 30 kilometres and one with a sliver of road: added in
  float64, the sliver is lost in the total, so the total minus the sum of the fifteen
  largest is zero, and the renamed row has the length of the sliver.
\<close>

lemma sliver_sorted: "sort_desc can_longitud sliver_por_canton =
   [sample_agg ''k03'' 30, sample_agg ''k10'' 29, sample_agg ''k13'' 28, sample_agg ''k06'' 27,
    sample_agg ''k15'' 26, sample_agg ''k04'' 25, sample_agg ''k12'' 24, sample_agg ''k07'' 23,
    sample_agg ''k16'' 22, sample_agg ''k01'' 21, sample_agg ''k09'' 20, sample_agg ''k14'' 19,
    sample_agg ''k05'' 18, sample_agg ''k11'' 17, sample_agg ''k02'' 16, sample_agg ''k08'' (1 / 2 ^ 50)]"
  by (simp add: sort_desc_def sliver_por_canton_def sample_agg_def)

lemma sliver_sums: "sum64 [(1, - 50)] = (1, - 50)" "sum64 sliver_lengths = (6069304185323520, - 44)"
  "sum64 sliver_top_15 = (345, 0)" "fsub (6069304185323520, - 44) (345, 0) = (0, - 44)"
  by code_simp+

theorem other_bucket_differs_in_float64:
  "map can_longitud sliver_por_canton = map valor sliver_lengths
   \<and> map snd (top_15 sliver_por_canton) = map valor sliver_top_15
   \<and> map can_longitud (drop 15 (por_canton_pie id sliver_por_canton)) = map valor [(1, - 50)]
   \<and> valor (sum64 [(1, - 50)]) = 1 / 2 ^ 50
   \<and> valor (fsub (sum64 sliver_lengths) (sum64 sliver_top_15)) = 0
   \<and> valor (sum64 [(1, - 50)]) \<noteq> valor (fsub (sum64 sliver_lengths) (sum64 sliver_top_15))"
proof -
  have a: "map can_longitud sliver_por_canton = map valor sliver_lengths"
    by (simp add: sliver_por_canton_def sliver_lengths_def sample_agg_def valor_def)
  have b: "map snd (top_15 sliver_por_canton) = map valor sliver_top_15"
    by (simp add: top_15_def nlargest_def sliver_sorted sliver_top_15_def sample_agg_def valor_def)
  have s: "sort_values id can_longitud sliver_por_canton = sort_desc can_longitud sliver_por_canton"
    by (simp add: sort_values_def sort_desc_def)
  have c: "map can_longitud (drop 15 (por_canton_pie id sliver_por_canton)) = map valor [(1, - 50)]"
    by (simp add: take_drop_pie s sliver_sorted sample_agg_def valor_def)
  have d: "valor (sum64 [(1, - 50)]) = 1 / 2 ^ 50"
    by (simp add: sliver_sums valor_def)
  have e: "valor (fsub (sum64 sliver_lengths) (sum64 sliver_top_15)) = 0"
    by (simp add: sliver_sums valor_def)
  from a b c d e show ?thesis by simp
qed


subsection \<open>No intersection\<close>

lemma principal_empty_overlay:
  assumes "cargar_vias fv = Inr lv" "cargar_cantones geod fc = Inr cantones"
    "selectbox (lista_categorias (rows lv)) i = Some sel"
    "overlay ops (filtrar sel (rows lv)) cantones = []"
  shows "principal geod ops env fv fc i = Inl TypeError"
  using assms by (simp add: principal_def procesar_def linea_101_def)

text \<open>
  C6. The specification asks that a category whose roads intersect no canton gives empty
  aggregates and no error. The script does not do that. On the sample layers the control
  offers the category of the footpath, the footpath intersects no canton, the intersection
  has no rows, and the run stops at line 101 with a TypeError before any aggregate is
  computed.
\<close>

theorem empty_overlay_raises_type_error:
  "cargar_vias (GeoJSON (sample_layer cols_vias sample_vias)) = Inr (sample_layer cols_vias sample_vias)
   \<and> cargar_cantones grid_geod (GeoJSON (sample_layer cols_cantones sample_cantones_rows)) = Inr sample_cantones
   \<and> selectbox (lista_categorias sample_vias) 2 = Some ''SENDERO''
   \<and> filtrar ''SENDERO'' sample_vias = [sample_via ''SENDERO'' ''5'' [40, 41]]
   \<and> map (intersection grid_ops [40, 41]) (map c_geometry sample_cantones) = [None, None, None, None]
   \<and> overlay grid_ops (filtrar ''SENDERO'' sample_vias) sample_cantones = []
   \<and> principal grid_geod grid_ops sample_env (GeoJSON (sample_layer cols_vias sample_vias))
        (GeoJSON (sample_layer cols_cantones sample_cantones_rows)) 2 = Inl TypeError"
proof -
  let ?lv = "sample_layer cols_vias sample_vias"
  let ?lc = "sample_layer cols_cantones sample_cantones_rows"
  have 1: "cargar_vias (GeoJSON ?lv) = Inr ?lv"
    by (simp add: cargar_vias_def read_file_def loc_columns_def sample_layer_def cols_vias_def)
  have 2: "cargar_cantones grid_geod (GeoJSON ?lc) = Inr sample_cantones"
    by (simp add: cargar_cantones_def read_file_def loc_columns_def sample_layer_def cols_cantones_def sample_cantones_def)
  have r: "rows ?lv = sample_vias" by (simp add: sample_layer_def)
  have 3: "selectbox (lista_categorias sample_vias) 2 = Some ''SENDERO''"
    by (simp add: sample_lista_categorias selectbox_def)
  have f: "filtrar ''SENDERO'' sample_vias = [sample_via ''SENDERO'' ''5'' [40, 41]]"
    by (simp add: filtrar_def sample_vias_def sample_via_def)
  have n: "map (intersection grid_ops [40, 41]) (map c_geometry sample_cantones) = [None, None, None, None]"
    by (simp add: sample_defs)
  have 4: "overlay grid_ops (filtrar ''SENDERO'' sample_vias) sample_cantones = []"
    by (simp add: f) (simp add: overlay_def clip_def sample_defs)
  have sel: "selectbox (lista_categorias (rows ?lv)) 2 = Some ''SENDERO''"
    using 3 by (simp only: r)
  have emp: "overlay grid_ops (filtrar ''SENDERO'' (rows ?lv)) sample_cantones = []"
    using 4 by (simp only: r)
  have "principal grid_geod grid_ops sample_env (GeoJSON ?lv) (GeoJSON ?lc) 2 = Inl TypeError"
    by (rule principal_empty_overlay [OF 1 2 sel emp])
  with 1 2 3 f n 4 show ?thesis by blast
qed


end
